theory Spec2Isabelle
  imports Main
begin

section \<open>Package flock: an advisory file lock that removes its file on release\<close>

text \<open>
  The package under verification is \<^verbatim>\<open>src/flock/flock.go\<close>:
  \<^verbatim>\<open>
  type Flock struct {
      *flockExt.Flock
  }

  func New(path string) *Flock {
      return &Flock{flockExt.New(path)}
  }

  func (l *Flock) Unlock() error {
      os.Remove(l.Path())
      return l.Flock.Unlock()
  }
  \<close>
  It embeds the lock of \<^verbatim>\<open>github.com/gofrs/flock\<close> (imported as
  \<^verbatim>\<open>flockExt\<close>) and overrides one method. Everything the package does is a call of
  that library or of \<^verbatim>\<open>os.Remove\<close>; both live outside the repository.
\<close>

subsection \<open>The external collaborators, as parameters\<close>

text \<open>
  The calls the package makes are collected in a record of state transformers over a
  world \<open>'w\<close> (file system, lock table of the operating system, the library's own
  objects). \<open>'h\<close> is the type of a \<^verbatim>\<open>*flockExt.Flock\<close> and \<open>'e\<close> the type of
  a non-nil Go \<^verbatim>\<open>error\<close>, so that \<open>None\<close> is \<^verbatim>\<open>nil\<close>. The blocking
  \<^verbatim>\<open>Lock\<close> may never return: its result is optional, \<open>None\<close> standing for a
  call that blocks forever.
\<close>

type_synonym path = string

record ('h, 'w, 'e) env =
  flockExt_New :: "path \<Rightarrow> 'w \<Rightarrow> 'h \<times> 'w"
  flockExt_Path :: "'h \<Rightarrow> 'w \<Rightarrow> path \<times> 'w"
  flockExt_TryLock :: "'h \<Rightarrow> 'w \<Rightarrow> (bool \<times> 'e option) \<times> 'w"
  flockExt_Lock :: "'h \<Rightarrow> 'w \<Rightarrow> ('e option \<times> 'w) option"
  flockExt_Unlock :: "'h \<Rightarrow> 'w \<Rightarrow> 'e option \<times> 'w"
  os_Remove :: "path \<Rightarrow> 'w \<Rightarrow> 'e option \<times> 'w"

subsection \<open>The package\<close>

text \<open>
  \<^verbatim>\<open>type Flock struct { *flockExt.Flock }\<close>: one field, the embedded pointer, named
  after its type. The handles considered are the ones \<^verbatim>\<open>New\<close> builds, whose
  pointers are never nil.
\<close>

record 'h Flock =
  Flock :: 'h

text \<open>\<^verbatim>\<open>func New(path string) *Flock { return &Flock{flockExt.New(path)} }\<close>\<close>

definition New :: "('h, 'w, 'e) env \<Rightarrow> path \<Rightarrow> 'w \<Rightarrow> 'h Flock \<times> 'w" where
  "New env path w =
     (case flockExt_New env path w of (h, w') \<Rightarrow> (\<lparr>Flock = h\<rparr>, w'))"

text \<open>
  The methods \<^verbatim>\<open>Path\<close>, \<^verbatim>\<open>TryLock\<close> and \<^verbatim>\<open>Lock\<close> are not declared in
  the package: Go promotes them from the embedded field, so \<^verbatim>\<open>l.Path()\<close> is
  \<^verbatim>\<open>l.Flock.Path()\<close>.
\<close>

definition Path :: "('h, 'w, 'e) env \<Rightarrow> 'h Flock \<Rightarrow> 'w \<Rightarrow> path \<times> 'w" where
  "Path env l w = flockExt_Path env (Flock l) w"

definition TryLock :: "('h, 'w, 'e) env \<Rightarrow> 'h Flock \<Rightarrow> 'w \<Rightarrow> (bool \<times> 'e option) \<times> 'w" where
  "TryLock env l w = flockExt_TryLock env (Flock l) w"

definition Lock :: "('h, 'w, 'e) env \<Rightarrow> 'h Flock \<Rightarrow> 'w \<Rightarrow> ('e option \<times> 'w) option" where
  "Lock env l w = flockExt_Lock env (Flock l) w"

text \<open>
  \<^verbatim>\<open>
  func (l *Flock) Unlock() error {
      os.Remove(l.Path())
      return l.Flock.Unlock()
  }
  \<close>
  The error of \<^verbatim>\<open>os.Remove\<close> is dropped; the world it leaves is the one the
  library's \<^verbatim>\<open>Unlock\<close> runs in.
\<close>

definition Unlock :: "('h, 'w, 'e) env \<Rightarrow> 'h Flock \<Rightarrow> 'w \<Rightarrow> 'e option \<times> 'w" where
  "Unlock env l w =
     (case Path env l w of (p, w1) \<Rightarrow>
      case os_Remove env p w1 of (_, w2) \<Rightarrow>
        flockExt_Unlock env (Flock l) w2)"

subsection \<open>Observing the calls\<close>

text \<open>
  To speak about which external calls a method makes, and in which order, any
  environment can be wrapped so that every call is also written to a log kept beside
  the world. A call of \<^verbatim>\<open>Lock\<close> that never returns leaves no world and no log.
\<close>

datatype 'h call =
    CallNew path
  | CallPath 'h
  | CallTryLock 'h
  | CallLock 'h
  | CallUnlock 'h
  | CallRemove path

definition traced :: "('h, 'w, 'e) env \<Rightarrow> ('h, 'w \<times> 'h call list, 'e) env" where
  "traced env =
     \<lparr> flockExt_New = (\<lambda>p (w, t).
         case flockExt_New env p w of (h, w') \<Rightarrow> (h, (w', t @ [CallNew p]))),
       flockExt_Path = (\<lambda>h (w, t).
         case flockExt_Path env h w of (p, w') \<Rightarrow> (p, (w', t @ [CallPath h]))),
       flockExt_TryLock = (\<lambda>h (w, t).
         case flockExt_TryLock env h w of (r, w') \<Rightarrow> (r, (w', t @ [CallTryLock h]))),
       flockExt_Lock = (\<lambda>h (w, t).
         case flockExt_Lock env h w of
           None \<Rightarrow> None
         | Some (e, w') \<Rightarrow> Some (e, (w', t @ [CallLock h]))),
       flockExt_Unlock = (\<lambda>h (w, t).
         case flockExt_Unlock env h w of (e, w') \<Rightarrow> (e, (w', t @ [CallUnlock h]))),
       os_Remove = (\<lambda>p (w, t).
         case os_Remove env p w of (e, w') \<Rightarrow> (e, (w', t @ [CallRemove p]))) \<rparr>"

text \<open>The log a computation leaves.\<close>

definition calls :: "'a \<times> 'w \<times> 'h call list \<Rightarrow> 'h call list" where
  "calls r = snd (snd r)"

text \<open>
  \<open>precedes a b t\<close>: some occurrence of \<open>a\<close> in the log \<open>t\<close> comes before an
  occurrence of \<open>b\<close> (it is enough to look behind the first \<open>a\<close>).
\<close>

fun precedes :: "'a \<Rightarrow> 'a \<Rightarrow> 'a list \<Rightarrow> bool" where
  "precedes a b [] = False"
| "precedes a b (x # xs) = (if x = a then b \<in> set xs else precedes a b xs)"

subsection \<open>A reference environment\<close>

text \<open>
  Modelled from the spec: the advisory-lock primitive \<^verbatim>\<open>github.com/gofrs/flock\<close>
  and \<^verbatim>\<open>os.Remove\<close>, which the package calls and which are not under
  \<^verbatim>\<open>src/\<close>. The spec keys the lock state by path, not by handle object: "the lock
  state (held/not held) is a property of the OS primitive keyed by path, not of the handle
  object, so two handles on the same path are just two views into the same exclusion
  domain". The artifact is a separate matter: "the artifact's mere existence is not itself
  the lock", and "unlinking a path does not invalidate locks held via existing open
  handles". So the world is the set of existing paths, the holder of each path (the
  identity of a handle), and the number of handles built so far. Paths that cannot be
  used at all (the spec's permission-class errors) are not part of this environment; the
  theorems about arbitrary environments cover them.
\<close>

datatype errno = ENOENT | EACCES | EIO

record handle =
  hid :: nat
  hpath :: path

record world =
  files :: "path set"
  holder :: "path \<rightharpoonup> nat"
  next_id :: nat

text \<open>
  Modelled from the spec: \<^verbatim>\<open>flockExt.New\<close>. "Construction performs no I/O and cannot
  fail; it is valid to construct multiple independent handles for the same path": the
  handle gets a fresh identity and the path, and nothing else changes.
\<close>

definition ref_New :: "path \<Rightarrow> world \<Rightarrow> handle \<times> world" where
  "ref_New p w = (\<lparr>hid = next_id w, hpath = p\<rparr>, w\<lparr>next_id := Suc (next_id w)\<rparr>)"

text \<open>Modelled from the spec: \<^verbatim>\<open>(*flockExt.Flock).Path\<close>, the path the handle is bound to.\<close>

definition ref_Path :: "handle \<Rightarrow> world \<Rightarrow> path \<times> world" where
  "ref_Path h w = (hpath h, w)"

text \<open>
  Modelled from the spec: \<^verbatim>\<open>(*flockExt.Flock).TryLock\<close>. "Attempts exactly one OS-level
  exclusive-lock request without waiting"; "may create the backing artifact at the path
  if it does not already exist"; on success "the handle is now the exclusive holder for
  that path"; on contention the result is not-acquired "with no error". A handle that
  already holds the lock "succeeds trivially".
\<close>

definition ref_TryLock :: "handle \<Rightarrow> world \<Rightarrow> (bool \<times> errno option) \<times> world" where
  "ref_TryLock h w =
     (if holder w (hpath h) = Some (hid h) then ((True, None), w)
      else
        (case holder w (hpath h) of
           None \<Rightarrow>
             ((True, None),
              w\<lparr>files := insert (hpath h) (files w),
                holder := (holder w)(hpath h \<mapsto> hid h)\<rparr>)
         | Some k \<Rightarrow>
             ((False, None), w\<lparr>files := insert (hpath h) (files w)\<rparr>)))"

text \<open>
  Modelled from the spec: \<^verbatim>\<open>(*flockExt.Flock).Lock\<close>. "Blocks the calling thread until
  the lock becomes available, then acquires it." In a run where nobody else acts while
  the call waits, a lock held by another handle never becomes available: no result.
\<close>

definition ref_Lock :: "handle \<Rightarrow> world \<Rightarrow> (errno option \<times> world) option" where
  "ref_Lock h w =
     (if holder w (hpath h) = Some (hid h) then Some (None, w)
      else
        (case holder w (hpath h) of
           None \<Rightarrow>
             Some (None,
               w\<lparr>files := insert (hpath h) (files w),
                 holder := (holder w)(hpath h \<mapsto> hid h)\<rparr>)
         | Some k \<Rightarrow> None))"

text \<open>
  Modelled from the spec: \<^verbatim>\<open>(*flockExt.Flock).Unlock\<close>. It "releases the OS-level lock
  for the path the handle holds"; on a handle that does not hold the lock it is the "safe
  no-op" the spec allows.
\<close>

definition ref_Unlock :: "handle \<Rightarrow> world \<Rightarrow> errno option \<times> world" where
  "ref_Unlock h w =
     (if holder w (hpath h) = Some (hid h)
      then (None, w\<lparr>holder := (holder w)(hpath h := None)\<rparr>)
      else (None, w))"

text \<open>
  Modelled from the spec: \<^verbatim>\<open>os.Remove\<close>. It deletes the entry at the path and leaves
  the locks alone; when there is no entry it reports the spec's "not found".
\<close>

definition ref_Remove :: "path \<Rightarrow> world \<Rightarrow> errno option \<times> world" where
  "ref_Remove p w =
     (if p \<in> files w then (None, w\<lparr>files := files w - {p}\<rparr>) else (Some ENOENT, w))"

definition ref_env :: "(handle, world, errno) env" where
  "ref_env =
     \<lparr> flockExt_New = ref_New,
       flockExt_Path = ref_Path,
       flockExt_TryLock = ref_TryLock,
       flockExt_Lock = ref_Lock,
       flockExt_Unlock = ref_Unlock,
       os_Remove = ref_Remove \<rparr>"

text \<open>
  The same environment with a deletion that fails and leaves the entry in place, as
  \<^verbatim>\<open>os.Remove\<close> does when the directory of the path may not be written.
\<close>

definition denied_env :: "(handle, world, errno) env" where
  "denied_env = ref_env\<lparr>os_Remove := \<lambda>p w. (Some EACCES, w)\<rparr>"

subsection \<open>An environment with files behind the paths\<close>

text \<open>
  Modelled from the spec: the same two collaborators (\<^verbatim>\<open>github.com/gofrs/flock\<close> and
  \<^verbatim>\<open>os.Remove\<close>, not under \<^verbatim>\<open>src/\<close>), this time with the spec's remark on what a
  lock is attached to: "on POSIX-like systems, unlinking a path does not invalidate locks
  held via existing open handles on the already-open file". A handle "holds whatever
  OS-level handle/descriptor is needed to manipulate the advisory lock"; the artifact is
  "the filesystem entry at the bound path", "used as the locking anchor". So a path names
  a file (here a number), the lock is on the file, and a handle that holds the lock has
  that file open. The reference environment above is the special case in which no path is
  unlinked while the file it names is locked.
\<close>

record inode_world =
  dir :: "path \<rightharpoonup> nat"
  flock_owner :: "nat \<rightharpoonup> nat"
  fh :: "nat \<rightharpoonup> nat"
  next_inode :: nat
  next_handle :: nat

text \<open>
  Modelled from the spec: how try-acquire gets at the file. It "may create the backing
  artifact at the path if it does not already exist": the file the path names, or a new
  file entered under the path.
\<close>

definition open_create :: "path \<Rightarrow> inode_world \<Rightarrow> nat \<times> inode_world" where
  "open_create p w =
     (case dir w p of
        Some i \<Rightarrow> (i, w)
      | None \<Rightarrow>
          (next_inode w,
           w\<lparr>dir := (dir w)(p \<mapsto> next_inode w), next_inode := Suc (next_inode w)\<rparr>))"

text \<open>Modelled from the spec: \<^verbatim>\<open>flockExt.New\<close>, with no I/O, as in the reference environment.\<close>

definition inode_New :: "path \<Rightarrow> inode_world \<Rightarrow> handle \<times> inode_world" where
  "inode_New p w =
     (\<lparr>hid = next_handle w, hpath = p\<rparr>, w\<lparr>next_handle := Suc (next_handle w)\<rparr>)"

text \<open>Modelled from the spec: \<^verbatim>\<open>(*flockExt.Flock).Path\<close>, the path the handle is bound to.\<close>

definition inode_Path :: "handle \<Rightarrow> inode_world \<Rightarrow> path \<times> inode_world" where
  "inode_Path h w = (hpath h, w)"

text \<open>
  Modelled from the spec: \<^verbatim>\<open>(*flockExt.Flock).TryLock\<close>. A handle that holds the lock
  "succeeds trivially". Otherwise the file at the path is opened (created if absent) and
  "exactly one OS-level exclusive-lock request" is made on it: if no handle has that file
  locked the handle becomes its holder; if one has, the result is not-acquired with no
  error and "the caller owns nothing" (the file is not kept open).
\<close>

definition inode_TryLock ::
  "handle \<Rightarrow> inode_world \<Rightarrow> (bool \<times> errno option) \<times> inode_world" where
  "inode_TryLock h w =
     (case fh w (hid h) of
        Some i \<Rightarrow> ((True, None), w)
      | None \<Rightarrow>
          (case open_create (hpath h) w of (i, w1) \<Rightarrow>
             (case flock_owner w1 i of
                None \<Rightarrow>
                  ((True, None),
                   w1\<lparr>flock_owner := (flock_owner w1)(i \<mapsto> hid h),
                      fh := (fh w1)(hid h \<mapsto> i)\<rparr>)
              | Some k \<Rightarrow> ((False, None), w1))))"

text \<open>
  Modelled from the spec: \<^verbatim>\<open>(*flockExt.Flock).Lock\<close>, which "blocks the calling thread
  until the lock becomes available": no result while another handle has the file locked.
\<close>

definition inode_Lock :: "handle \<Rightarrow> inode_world \<Rightarrow> (errno option \<times> inode_world) option" where
  "inode_Lock h w =
     (case fh w (hid h) of
        Some i \<Rightarrow> Some (None, w)
      | None \<Rightarrow>
          (case open_create (hpath h) w of (i, w1) \<Rightarrow>
             (case flock_owner w1 i of
                None \<Rightarrow>
                  Some (None,
                    w1\<lparr>flock_owner := (flock_owner w1)(i \<mapsto> hid h),
                       fh := (fh w1)(hid h \<mapsto> i)\<rparr>)
              | Some k \<Rightarrow> None)))"

text \<open>
  Modelled from the spec: \<^verbatim>\<open>(*flockExt.Flock).Unlock\<close>. It releases the lock on the file
  the handle has open and closes it; on a handle that holds nothing it is the "safe
  no-op".
\<close>

definition inode_Unlock :: "handle \<Rightarrow> inode_world \<Rightarrow> errno option \<times> inode_world" where
  "inode_Unlock h w =
     (case fh w (hid h) of
        None \<Rightarrow> (None, w)
      | Some i \<Rightarrow>
          (None,
           w\<lparr>flock_owner := (flock_owner w)(i := None), fh := (fh w)(hid h := None)\<rparr>))"

text \<open>
  Modelled from the spec: \<^verbatim>\<open>os.Remove\<close>. It takes the entry out of the directory;
  "unlinking a path does not invalidate locks held via existing open handles", so the
  file and the lock on it stay as they are.
\<close>

definition inode_Remove :: "path \<Rightarrow> inode_world \<Rightarrow> errno option \<times> inode_world" where
  "inode_Remove p w =
     (case dir w p of
        None \<Rightarrow> (Some ENOENT, w)
      | Some i \<Rightarrow> (None, w\<lparr>dir := (dir w)(p := None)\<rparr>))"

definition inode_env :: "(handle, inode_world, errno) env" where
  "inode_env =
     \<lparr> flockExt_New = inode_New,
       flockExt_Path = inode_Path,
       flockExt_TryLock = inode_TryLock,
       flockExt_Lock = inode_Lock,
       flockExt_Unlock = inode_Unlock,
       os_Remove = inode_Remove \<rparr>"

subsection \<open>The test of the package\<close>

text \<open>\<^verbatim>\<open>const testLockPath = "/tmp/bitcask_unit_test_lock"\<close> of \<^verbatim>\<open>src/flock/flock_test.go\<close>.\<close>

definition testLockPath :: path where
  "testLockPath = ''/tmp/bitcask_unit_test_lock''"

text \<open>
  \<^verbatim>\<open>TestTryLock\<close> of \<^verbatim>\<open>src/flock/flock_test.go\<close>, returning what its five calls
  return instead of asserting on it:
  \<^verbatim>\<open>
  os.Remove(testLockPath)
  lock1 := New(testLockPath)
  lock2 := New(testLockPath)
  locked1, err := lock1.TryLock()
  locked2, err := lock2.TryLock()
  err = lock1.Unlock()
  locked2, err = lock2.TryLock()
  err = lock2.Unlock()
  \<close>
\<close>

definition TestTryLock ::
  "('h, 'w, 'e) env \<Rightarrow> path \<Rightarrow> 'w \<Rightarrow>
     ((bool \<times> 'e option) \<times> (bool \<times> 'e option) \<times> 'e option \<times> (bool \<times> 'e option) \<times> 'e option) \<times> 'w"
  where
  "TestTryLock env p w =
     (case os_Remove env p w of (_, w0) \<Rightarrow>
      case New env p w0 of (lock1, w1) \<Rightarrow>
      case New env p w1 of (lock2, w2) \<Rightarrow>
      case TryLock env lock1 w2 of (r1, w3) \<Rightarrow>
      case TryLock env lock2 w3 of (r2, w4) \<Rightarrow>
      case Unlock env lock1 w4 of (r3, w5) \<Rightarrow>
      case TryLock env lock2 w5 of (r4, w6) \<Rightarrow>
      case Unlock env lock2 w6 of (r5, w7) \<Rightarrow>
        ((r1, r2, r3, r4, r5), w7))"

text \<open>
  A run of five calls of the package on one path: two handles are built, the first
  acquires the lock, the second one (which holds nothing) is released and then tries to
  acquire.
  \<^verbatim>\<open>
  a := New(p)
  b := New(p)
  a.TryLock()
  b.Unlock()
  b.TryLock()
  \<close>
\<close>

definition release_by_other ::
  "('h, 'w, 'e) env \<Rightarrow> path \<Rightarrow> 'w \<Rightarrow>
     ('h Flock \<times> 'h Flock \<times> (bool \<times> 'e option) \<times> 'e option \<times> (bool \<times> 'e option)) \<times> 'w"
  where
  "release_by_other env p w =
     (case New env p w of (a, w1) \<Rightarrow>
      case New env p w1 of (b, w2) \<Rightarrow>
      case TryLock env a w2 of (r1, w3) \<Rightarrow>
      case Unlock env b w3 of (r2, w4) \<Rightarrow>
      case TryLock env b w4 of (r3, w5) \<Rightarrow>
        ((a, b, r1, r2, r3), w5))"

subsection \<open>Concrete worlds and handles\<close>

definition empty_world :: world where
  "empty_world = \<lparr>files = {}, holder = Map.empty, next_id = 0\<rparr>"

text \<open>The two handles of the test, and the world in which the first one holds the lock.\<close>

definition lock1 :: "handle Flock" where
  "lock1 = \<lparr>Flock = \<lparr>hid = 0, hpath = testLockPath\<rparr>\<rparr>"

definition lock2 :: "handle Flock" where
  "lock2 = \<lparr>Flock = \<lparr>hid = 1, hpath = testLockPath\<rparr>\<rparr>"

definition held_world :: world where
  "held_world =
     \<lparr>files = {testLockPath}, holder = [testLockPath \<mapsto> 0], next_id = 2\<rparr>"

text \<open>The world with no file, no lock and no handle, with files behind the paths.\<close>

definition empty_inode_world :: inode_world where
  "empty_inode_world =
     \<lparr>dir = Map.empty, flock_owner = Map.empty, fh = Map.empty,
      next_inode = 0, next_handle = 0\<rparr>"

subsection \<open>Statements of the spec that the code is compared with\<close>


text \<open>
  The spec's "held" state of a handle, with files behind the paths: the handle has a
  locked file open.
\<close>

definition held :: "inode_world \<Rightarrow> handle Flock \<Rightarrow> bool" where
  "held w l = (fh w (hid (Flock l)) \<noteq> None)"

section \<open>Facts used throughout\<close>

lemmas ref_defs =
  ref_env_def ref_New_def ref_Path_def ref_TryLock_def ref_Lock_def ref_Unlock_def
  ref_Remove_def

lemmas inode_defs =
  inode_env_def inode_New_def inode_Path_def inode_TryLock_def inode_Lock_def
  inode_Unlock_def inode_Remove_def open_create_def

lemma Unlock_unfold:
  "Unlock env l w =
     flockExt_Unlock env (Flock l)
       (snd (os_Remove env (fst (flockExt_Path env (Flock l) w))
               (snd (flockExt_Path env (Flock l) w))))"
  by (simp add: Unlock_def Path_def split: prod.splits)

lemma calls_Unlock:
  "calls (Unlock (traced env) l (w, t)) =
     t @ [CallPath (Flock l), CallRemove (fst (Path env l w)), CallUnlock (Flock l)]"
  by (simp add: calls_def Unlock_def Path_def traced_def split: prod.splits)

text \<open>
  The concrete world \<open>held_world\<close> and the handles \<open>lock1\<close>, \<open>lock2\<close> are what the
  first three steps of the test produce from the empty world.
\<close>

lemma held_world_reached:
  "(case New ref_env testLockPath empty_world of (l1, w1) \<Rightarrow>
    case New ref_env testLockPath w1 of (l2, w2) \<Rightarrow>
    case TryLock ref_env l1 w2 of (r, w3) \<Rightarrow> (l1, l2, r, w3))
   = (lock1, lock2, (True, None), held_world)"
  by (simp add: New_def TryLock_def ref_defs empty_world_def lock1_def lock2_def
      held_world_def)

section \<open>The order of the two steps of a release\<close>

text \<open>
  Claim C2, as the spec states it: a release first releases the OS-level lock and then
  deletes the artifact. The code does the opposite. For the holder \<open>lock1\<close> of the test
  path, the log of \<^verbatim>\<open>Unlock\<close> has no unlock call before the deletion.
\<close>

theorem Unlock_unlock_before_remove_counterexample:
  "\<not> precedes (CallUnlock (Flock lock1)) (CallRemove testLockPath)
       (calls (Unlock (traced ref_env) lock1 (held_world, [])))"
  by (simp add: calls_Unlock Path_def lock1_def ref_env_def ref_Path_def)

text \<open>
  Claim C2, amended: for every handle, in every environment and world, \<^verbatim>\<open>Unlock\<close>
  makes exactly three external calls in this order: it asks the library for the path,
  attempts to delete the artifact at that path, and then calls the library's unlock. The
  deletion precedes the unlock, never the other way round, and the result and final world
  are those of the library's unlock run in the world the deletion left.
\<close>

theorem Unlock_removes_then_unlocks:
  "calls (Unlock (traced env) l (w, [])) =
     [CallPath (Flock l), CallRemove (fst (Path env l w)), CallUnlock (Flock l)]
   \<and> precedes (CallRemove (fst (Path env l w))) (CallUnlock (Flock l))
       (calls (Unlock (traced env) l (w, [])))
   \<and> \<not> precedes (CallUnlock (Flock l)) (CallRemove (fst (Path env l w)))
       (calls (Unlock (traced env) l (w, [])))
   \<and> Unlock env l w =
       flockExt_Unlock env (Flock l)
         (snd (os_Remove env (fst (Path env l w)) (snd (Path env l w))))"
proof -
  have log: "calls (Unlock (traced env) l (w, [])) =
      [CallPath (Flock l), CallRemove (fst (Path env l w)), CallUnlock (Flock l)]"
    by (simp add: calls_Unlock)
  have run: "Unlock env l w =
      flockExt_Unlock env (Flock l)
        (snd (os_Remove env (fst (Path env l w)) (snd (Path env l w))))"
    by (simp add: Unlock_unfold Path_def)
  show ?thesis
    unfolding log using run by simp
qed

text \<open>
  Claim C7. The deletion is attempted whatever the unlock step reports: with the
  library's unlock replaced by any function \<open>u\<close> (one that succeeds, one that fails),
  the log of \<^verbatim>\<open>Unlock\<close> contains the deletion of the artifact at the bound path, and
  the final world is the one \<open>u\<close> leaves when started in the world after the deletion.
\<close>

theorem Unlock_always_attempts_removal:
  "CallRemove (fst (Path env l w))
     \<in> set (calls (Unlock (traced (env\<lparr>flockExt_Unlock := u\<rparr>)) l (w, [])))
   \<and> snd (Unlock (env\<lparr>flockExt_Unlock := u\<rparr>) l w) =
       snd (u (Flock l) (snd (os_Remove env (fst (Path env l w)) (snd (Path env l w)))))"
proof
  have "Path (env\<lparr>flockExt_Unlock := u\<rparr>) l w = Path env l w"
    by (simp add: Path_def)
  then show "CallRemove (fst (Path env l w))
      \<in> set (calls (Unlock (traced (env\<lparr>flockExt_Unlock := u\<rparr>)) l (w, [])))"
    by (simp add: calls_Unlock)
  show "snd (Unlock (env\<lparr>flockExt_Unlock := u\<rparr>) l w) =
      snd (u (Flock l) (snd (os_Remove env (fst (Path env l w)) (snd (Path env l w)))))"
    by (simp add: Unlock_unfold Path_def)
qed

section \<open>The error a release returns\<close>

text \<open>
  Claim C4. The error that \<^verbatim>\<open>Unlock\<close> returns is exactly the error of the library's
  unlock step, run in the world the deletion attempt left. The error reported by the
  deletion never reaches the result: replacing it by any other value \<open>r\<close>, for any
  environment, changes neither the returned error nor the final world, so it can neither
  become the result nor mask a failure of the unlock step.
\<close>

theorem Unlock_error_is_unlock_step_error:
  "fst (Unlock env l w) =
     fst (flockExt_Unlock env (Flock l)
       (snd (os_Remove env (fst (Path env l w)) (snd (Path env l w)))))
   \<and> Unlock (env\<lparr>os_Remove := \<lambda>p v. (r p v, snd (os_Remove env p v))\<rparr>) l w
       = Unlock env l w"
  by (simp add: Unlock_def Path_def split: prod.splits)

text \<open>
  Two runs that show both halves at work. When the unlock step fails with \<open>EIO\<close>, the
  release returns \<open>EIO\<close> and the artifact is gone all the same; when the deletion fails
  as well, the release still returns the unlock step's \<open>EIO\<close>, not the deletion's
  \<open>EACCES\<close>.
\<close>

lemma Unlock_failing_unlock_step:
  "Unlock (ref_env\<lparr>flockExt_Unlock := \<lambda>h w. (Some EIO, w)\<rparr>) lock1 held_world
     = (Some EIO, held_world\<lparr>files := {}\<rparr>)
   \<and> Unlock (denied_env\<lparr>flockExt_Unlock := \<lambda>h w. (Some EIO, w)\<rparr>) lock1 held_world
     = (Some EIO, held_world)"
  by (simp add: Unlock_unfold denied_env_def ref_defs lock1_def held_world_def)

section \<open>The artifact after a release\<close>

text \<open>
  Claim C3, as the spec states it: after a release that reports success the artifact does
  not exist. The result of a release reports the unlock step only. Where the deletion
  fails and leaves the entry (here with \<open>EACCES\<close>), the holder's release still reports
  success, and the artifact is still there.
\<close>

theorem Unlock_success_artifact_exists_counterexample:
  "\<not> (fst (Unlock denied_env lock1 held_world) = None
       \<longrightarrow> testLockPath \<notin> files (snd (Unlock denied_env lock1 held_world)))"
  by (simp add: Unlock_unfold denied_env_def ref_defs lock1_def held_world_def)

text \<open>
  Claim C3, amended: for every handle (a holder in particular), after a release whose
  deletion step left no artifact at the bound path (it deleted it, or found none), the
  artifact does not exist when the release returns, whatever the release reports. The
  deletion \<open>rm\<close> is arbitrary; the library is the reference one, whose unlock does not
  create files.
\<close>

theorem Unlock_artifact_absent_after_removal:
  assumes "hpath h \<notin> files (snd (rm (hpath h) w))"
  shows "hpath h \<notin> files (snd (Unlock (ref_env\<lparr>os_Remove := rm\<rparr>) \<lparr>Flock = h\<rparr> w))"
  using assms by (simp add: Unlock_unfold ref_defs)

theorem Unlock_artifact_absent_after_removal_witness:
  "testLockPath \<notin> files (snd (ref_Remove testLockPath held_world))
   \<and> testLockPath \<notin> files (snd (Unlock ref_env lock1 held_world))
   \<and> fst (Unlock ref_env lock1 held_world) = None"
  using Unlock_artifact_absent_after_removal [of "Flock lock1" ref_Remove held_world]
  by (simp add: Unlock_unfold ref_defs lock1_def held_world_def)

section \<open>Releasing a handle that does not hold the lock\<close>




text \<open>
  A second release right after the first one finds no artifact and no lock of its own:
  it changes nothing and returns \<^verbatim>\<open>nil\<close>.
\<close>

lemma Unlock_twice:
  "Unlock ref_env l (snd (Unlock ref_env l w)) = (None, snd (Unlock ref_env l w))"
  by (auto simp add: Unlock_unfold ref_defs)

section \<open>The scenario of the test\<close>

text \<open>
  Claim C6. On a path \<open>p\<close> on which no lock is held, the test's sequence (the path is
  first made absent; then \<^verbatim>\<open>lock1.TryLock\<close>, \<^verbatim>\<open>lock2.TryLock\<close>, \<^verbatim>\<open>lock1.Unlock\<close>,
  \<^verbatim>\<open>lock2.TryLock\<close>, \<^verbatim>\<open>lock2.Unlock\<close> on two handles built for \<open>p\<close>) returns
  \<^verbatim>\<open>(true, nil)\<close>, \<^verbatim>\<open>(false, nil)\<close>, \<^verbatim>\<open>nil\<close>, \<^verbatim>\<open>(true, nil)\<close>, \<^verbatim>\<open>nil\<close>, and
  afterwards there is no artifact at \<open>p\<close> and no lock on it.
\<close>

theorem TestTryLock_results:
  assumes "holder w p = None"
  shows "fst (TestTryLock ref_env p w) =
      ((True, None), (False, None), None, (True, None), None)
    \<and> p \<notin> files (snd (TestTryLock ref_env p w))
    \<and> holder (snd (TestTryLock ref_env p w)) p = None"
  using assms
  by (simp add: TestTryLock_def New_def TryLock_def Unlock_unfold ref_defs)

theorem TestTryLock_results_witness:
  "holder empty_world testLockPath = None
   \<and> TestTryLock ref_env testLockPath empty_world =
       (((True, None), (False, None), None, (True, None), None),
        \<lparr>files = {}, holder = Map.empty, next_id = 2\<rparr>)"
  using TestTryLock_results [of empty_world testLockPath]
  by (simp add: TestTryLock_def New_def TryLock_def Unlock_unfold ref_defs empty_world_def)

section \<open>Mutual exclusion\<close>

text \<open>
  With files behind the paths, the test of the package runs as in the reference
  environment: same five results, and no entry at the path afterwards.
\<close>

lemma TestTryLock_inode_env:
  "fst (TestTryLock inode_env testLockPath empty_inode_world) =
      ((True, None), (False, None), None, (True, None), None)
   \<and> dir (snd (TestTryLock inode_env testLockPath empty_inode_world)) testLockPath = None"
  by (simp add: TestTryLock_def New_def TryLock_def Unlock_unfold inode_defs
      empty_inode_world_def)

text \<open>
  Claim C1 says that of the handles bound to one path at most one is in the held state,
  and that while a handle holds the lock every \<^verbatim>\<open>TryLock\<close> of another handle on the
  path returns not-acquired. The code breaks this. In the run \<open>release_by_other\<close> on
  the test path, \<open>lock1\<close> acquires the lock; the release of \<open>lock2\<close>, which holds
  nothing, unlinks the file that \<open>lock1\<close> has locked (\<^verbatim>\<open>os.Remove\<close> is called
  whatever the handle holds); the \<^verbatim>\<open>TryLock\<close> of \<open>lock2\<close> then finds no file at
  the path, creates a new one, locks it and returns \<^verbatim>\<open>(true, nil)\<close>. At the end two
  different handles bound to the same path are both in the held state.
\<close>

theorem two_holders_on_one_path:
  "fst (release_by_other inode_env testLockPath empty_inode_world) =
      (lock1, lock2, (True, None), None, (True, None))
   \<and> held (snd (release_by_other inode_env testLockPath empty_inode_world)) lock1
   \<and> held (snd (release_by_other inode_env testLockPath empty_inode_world)) lock2
   \<and> Flock lock1 \<noteq> Flock lock2
   \<and> fst (Path inode_env lock1
         (snd (release_by_other inode_env testLockPath empty_inode_world))) = testLockPath
   \<and> fst (Path inode_env lock2
         (snd (release_by_other inode_env testLockPath empty_inode_world))) = testLockPath"
  by (simp add: release_by_other_def New_def TryLock_def Unlock_unfold Path_def inode_defs
      empty_inode_world_def held_def lock1_def lock2_def)

text \<open>
  The reference environment, where the lock is keyed by the path, does not show the
  defect: there the last \<^verbatim>\<open>TryLock\<close> of the same run returns \<^verbatim>\<open>(false, nil)\<close>.
\<close>

lemma release_by_other_ref_env:
  "fst (release_by_other ref_env testLockPath empty_world) =
      (lock1, lock2, (True, None), None, (False, None))"
  by (simp add: release_by_other_def New_def TryLock_def Unlock_unfold ref_defs
      empty_world_def lock1_def lock2_def)

section \<open>Contention\<close>

text \<open>
  Claim C8. When another handle holds the lock on the path, \<^verbatim>\<open>TryLock\<close> returns
  \<^verbatim>\<open>false\<close> with a \<^verbatim>\<open>nil\<close> error, and the holder of every path stays as it was:
  contention is not reported as an error. The package adds no error of its own: in every
  environment its \<^verbatim>\<open>TryLock\<close> returns what the library's returns.
\<close>

theorem TryLock_contention_no_error:
  assumes "holder w (hpath h) = Some k" and "k \<noteq> hid h"
  shows "fst (TryLock ref_env \<lparr>Flock = h\<rparr> w) = (False, None)
    \<and> holder (snd (TryLock ref_env \<lparr>Flock = h\<rparr> w)) = holder w
    \<and> TryLock env l v = flockExt_TryLock env (Flock l) v"
  using assms by (simp add: TryLock_def ref_defs)

theorem TryLock_contention_no_error_witness:
  "holder held_world (hpath (Flock lock2)) = Some 0 \<and> 0 \<noteq> hid (Flock lock2)
   \<and> fst (TryLock ref_env lock2 held_world) = (False, None)
   \<and> holder (snd (TryLock ref_env lock2 held_world)) = holder held_world"
proof -
  have held: "holder held_world (hpath (Flock lock2)) = Some 0"
    and other: "0 \<noteq> hid (Flock lock2)"
    by (simp_all add: lock2_def held_world_def)
  have same: "\<lparr>Flock = Flock lock2\<rparr> = lock2"
    by (simp add: lock2_def)
  from TryLock_contention_no_error [OF held other, of ref_env lock2 held_world]
  have "fst (TryLock ref_env lock2 held_world) = (False, None)"
    and "holder (snd (TryLock ref_env lock2 held_world)) = holder held_world"
    unfolding same by blast+
  with held other show ?thesis by blast
qed

section \<open>Construction\<close>

text \<open>
  Claim C9. \<^verbatim>\<open>New\<close> is total: for every path it returns the library's new handle,
  wrapped, and the library's constructor is the only external call it makes (no deletion,
  no lock request). With the reference library, construction changes neither the files nor
  the holder of any path, the handle is bound to the path given, and a second handle
  built for the same path is a different handle bound to the same path.
\<close>

theorem New_no_io:
  "New env p w = (\<lparr>Flock = fst (flockExt_New env p w)\<rparr>, snd (flockExt_New env p w))
   \<and> calls (New (traced env) p (w, t)) = t @ [CallNew p]
   \<and> files (snd (New ref_env p v)) = files v
   \<and> holder (snd (New ref_env p v)) = holder v
   \<and> fst (Path ref_env (fst (New ref_env p v)) v') = p
   \<and> Flock (fst (New ref_env p (snd (New ref_env p v)))) \<noteq> Flock (fst (New ref_env p v))
   \<and> fst (Path ref_env (fst (New ref_env p (snd (New ref_env p v)))) v') = p"
proof -
  have wrap:
    "New env p w = (\<lparr>Flock = fst (flockExt_New env p w)\<rparr>, snd (flockExt_New env p w))"
    by (simp add: New_def split: prod.splits)
  have log: "calls (New (traced env) p (w, t)) = t @ [CallNew p]"
    by (simp add: New_def calls_def traced_def split: prod.splits)
  have ref: "files (snd (New ref_env p v)) = files v"
    "holder (snd (New ref_env p v)) = holder v"
    "fst (Path ref_env (fst (New ref_env p v)) v') = p"
    "Flock (fst (New ref_env p (snd (New ref_env p v)))) \<noteq> Flock (fst (New ref_env p v))"
    "fst (Path ref_env (fst (New ref_env p (snd (New ref_env p v)))) v') = p"
    by (simp_all add: New_def Path_def ref_defs)
  from wrap log ref show ?thesis by blast
qed

section \<open>The promoted methods\<close>

text \<open>
  Claim C10. \<^verbatim>\<open>TryLock\<close>, \<^verbatim>\<open>Lock\<close> and \<^verbatim>\<open>Path\<close> of the package are the library's
  methods of the same name on the embedded handle: same result, same world, and the one
  library call is the only external call made (a \<^verbatim>\<open>Lock\<close> that does not return is the
  library's \<^verbatim>\<open>Lock\<close> not returning). \<^verbatim>\<open>Unlock\<close> is the one method that differs: its
  calls are never just the library's unlock.
\<close>

theorem only_Unlock_is_overridden:
  "TryLock env l w = flockExt_TryLock env (Flock l) w
   \<and> Lock env l w = flockExt_Lock env (Flock l) w
   \<and> Path env l w = flockExt_Path env (Flock l) w
   \<and> calls (TryLock (traced env) l (w, t)) = t @ [CallTryLock (Flock l)]
   \<and> calls (Path (traced env) l (w, t)) = t @ [CallPath (Flock l)]
   \<and> (case Lock (traced env) l (w, t) of
        None \<Rightarrow> flockExt_Lock env (Flock l) w = None
      | Some r \<Rightarrow> calls r = t @ [CallLock (Flock l)])
   \<and> calls (Unlock (traced env) l (w, t)) \<noteq> t @ [CallUnlock (Flock l)]"
proof -
  have promoted: "TryLock env l w = flockExt_TryLock env (Flock l) w"
    "Lock env l w = flockExt_Lock env (Flock l) w"
    "Path env l w = flockExt_Path env (Flock l) w"
    by (simp_all add: TryLock_def Lock_def Path_def)
  have trylock_log: "calls (TryLock (traced env) l (w, t)) = t @ [CallTryLock (Flock l)]"
    by (simp add: TryLock_def calls_def traced_def split: prod.splits)
  have path_log: "calls (Path (traced env) l (w, t)) = t @ [CallPath (Flock l)]"
    by (simp add: Path_def calls_def traced_def split: prod.splits)
  have lock_log: "case Lock (traced env) l (w, t) of
        None \<Rightarrow> flockExt_Lock env (Flock l) w = None
      | Some r \<Rightarrow> calls r = t @ [CallLock (Flock l)]"
    by (simp add: Lock_def calls_def traced_def split: prod.splits option.splits)
  have unlock_log: "calls (Unlock (traced env) l (w, t)) \<noteq> t @ [CallUnlock (Flock l)]"
    by (simp add: calls_Unlock)
  from promoted trylock_log path_log lock_log unlock_log show ?thesis by blast
qed

end
